theory Spec2Isabelle
  imports Main "HOL-Library.Word"
begin

unbundle bit_operations_syntax

section \<open>Bytes and little-endian integers\<close>

type_synonym byte = "8 word"
type_synonym u32 = "32 word"
type_synonym u64 = "64 word"

text \<open>\<^verbatim>\<open>binary.LittleEndian.PutUint32\<close> and \<^verbatim>\<open>binary.LittleEndian.Uint32\<close>.\<close>

definition PutUint32 :: "u32 \<Rightarrow> byte list" where
  "PutUint32 v = [ucast v, ucast (drop_bit 8 v), ucast (drop_bit 16 v), ucast (drop_bit 24 v)]"

definition Uint32 :: "byte list \<Rightarrow> u32" where
  "Uint32 b = ucast (b ! 0) OR push_bit 8 (ucast (b ! 1)) OR push_bit 16 (ucast (b ! 2))
     OR push_bit 24 (ucast (b ! 3))"

text \<open>An ASCII literal as bytes.\<close>

definition ascii :: "string \<Rightarrow> byte list" where
  "ascii s = map (\<lambda>c. word_of_nat (of_char c)) s"

text \<open>Go's \<^verbatim>\<open>copy(dst, src)\<close>: the first \<open>min (len dst) (len src)\<close> bytes of \<open>dst\<close> are
  replaced, the length of \<open>dst\<close> stays.\<close>

definition copy :: "'a list \<Rightarrow> 'a list \<Rightarrow> 'a list" where
  "copy dst src = take (length dst) src @ drop (length src) dst"

section \<open>Errors\<close>

text \<open>The causes wrapped by \<^verbatim>\<open>badEntry\<close>, the errors of the reader, and run-time panics
  (slice bounds, \<^verbatim>\<open>gotBadType\<close>, \<^verbatim>\<open>makeslice\<close>) as values.\<close>

datatype cause = CrossesBoundary | FieldIncomplete | IoEOF | IoUnexpectedEOF | InvalidType

datatype error =
    BadEntry nat cause
  | Panic
  | IOError
  | EarlyEOF
  | BadMagic
  | BadEntrySize
  | BadHeaderSize
  | HeaderTooBig
  | BadChecksum
  | HeaderErrors nat
  | NoValidEndPointer
  | EndingOutsideImageArea
  | BadEndPointer
  | DecryptionFailed
  | BadEndingMagic
  | BadEndingSize
  | ExtractError
  | NotBackwards
  | NotEnoughSpace
  | EndingTooLong
  | FillBackwards

section \<open>The entry registry (package entries)\<close>

text \<open>The kinds of the fields that the registered entry structs have: \<^verbatim>\<open>byte\<close>,
  \<^verbatim>\<open>uint32\<close>, \<^verbatim>\<open>[n]byte\<close> and \<^verbatim>\<open>[]byte\<close>; and the values of such fields.\<close>

datatype kind = KU8 | KU32 | KArray nat | KSlice

datatype fval = U8 byte | U32 u32 | Arr "byte list" | Slc "byte list"

datatype tname =
    TCvtmMagic | TAllocateOnce | TEndPointerChec | TEndPointerLoca | TEndingCipher | TEndingSize
  | TGlobalLogLocat | TImageArea | TImageBasic | TImageLog | TSdCid | TNoMoreImages | TEnding
  | TImageKey | TImageLogLocati

text \<open>The struct declarations, field by field.\<close>

fun structFields :: "tname \<Rightarrow> kind list" where
  "structFields TCvtmMagic = [KArray 32, KU32]"
| "structFields TAllocateOnce = [KU32]"
| "structFields TEndPointerChec = [KU32]"
| "structFields TEndPointerLoca = [KU32]"
| "structFields TEndingCipher = [KU32, KSlice]"
| "structFields TEndingSize = [KU32]"
| "structFields TGlobalLogLocat = [KU32, KU32]"
| "structFields TImageArea = [KU32, KU32]"
| "structFields TImageBasic = [KU32, KU8]"
| "structFields TImageLog = [KU32]"
| "structFields TSdCid = [KArray 15]"
| "structFields TNoMoreImages = []"
| "structFields TEnding = [KU32, KU32, KU32, KU32, KU8, KU32]"
| "structFields TImageKey = [KSlice]"
| "structFields TImageLogLocati = [KU32, KU32]"

definition mkId :: "string \<Rightarrow> byte list" where
  "mkId s = ascii s @ replicate (16 - length s) 0"

text \<open>\<^verbatim>\<open>TypeToID\<close> with the sixteen-byte identifiers \<^verbatim>\<open>IdCvtmMagic\<close> ...\<close>

fun TypeToID :: "tname \<Rightarrow> byte list" where
  "TypeToID TCvtmMagic = mkId ''CVTM-MAGIC''"
| "TypeToID TAllocateOnce = mkId ''ALLOCATE-ONCE''"
| "TypeToID TEndPointerChec = mkId ''END-POINTER-CHEC''"
| "TypeToID TEndPointerLoca = mkId ''END-POINTER-LOCA''"
| "TypeToID TEndingCipher = mkId ''ENDING-CIPHER''"
| "TypeToID TEndingSize = mkId ''ENDING-SIZE''"
| "TypeToID TGlobalLogLocat = mkId ''GLOBAL-LOG-LOCAT''"
| "TypeToID TImageArea = mkId ''IMAGE-AREA''"
| "TypeToID TImageBasic = mkId ''IMAGE-BASIC''"
| "TypeToID TImageLog = mkId ''IMAGE-LOG''"
| "TypeToID TSdCid = mkId ''SD-CID''"
| "TypeToID TNoMoreImages = mkId ''NO-MORE-IMAGES''"
| "TypeToID TEnding = mkId ''ENDING''"
| "TypeToID TImageKey = mkId ''IMAGE-KEY''"
| "TypeToID TImageLogLocati = mkId ''IMAGE-LOG-LOCATI''"

text \<open>The zero value of a field and of a struct.\<close>

fun zeroField :: "kind \<Rightarrow> fval" where
  "zeroField KU8 = U8 0"
| "zeroField KU32 = U32 0"
| "zeroField (KArray n) = Arr (replicate n 0)"
| "zeroField KSlice = Slc []"

definition zeroValue :: "tname \<Rightarrow> fval list" where
  "zeroValue T = map zeroField (structFields T)"

text \<open>A field value of the declared kind.\<close>

fun conforms :: "kind \<Rightarrow> fval \<Rightarrow> bool" where
  "conforms KU8 (U8 b) = True"
| "conforms KU32 (U32 w) = True"
| "conforms (KArray n) (Arr bs) = (length bs = n)"
| "conforms KSlice (Slc bs) = True"
| "conforms k v = False"

section \<open>Writing entries (common.go)\<close>

text \<open>\<^verbatim>\<open>binary.Size\<close> of a field value taken alone (a slice has the size of its
  contents), and of a field inside a struct (a slice type has no fixed size, -1).\<close>

fun sizeField :: "fval \<Rightarrow> int" where
  "sizeField (U8 b) = 1"
| "sizeField (U32 w) = 4"
| "sizeField (Arr bs) = int (length bs)"
| "sizeField (Slc bs) = int (length bs)"

fun sizeofField :: "fval \<Rightarrow> int" where
  "sizeofField (Slc bs) = -1"
| "sizeofField v = sizeField v"

definition sizeStruct :: "fval list \<Rightarrow> int" where
  "sizeStruct fs = (if list_ex (\<lambda>v. sizeofField v < 0) fs then -1 else sum_list (map sizeofField fs))"

text \<open>\<^verbatim>\<open>binary.Write\<close> with \<^verbatim>\<open>binary.LittleEndian\<close>.\<close>

fun binaryWrite :: "fval \<Rightarrow> byte list" where
  "binaryWrite (U8 b) = [b]"
| "binaryWrite (U32 w) = PutUint32 w"
| "binaryWrite (Arr bs) = bs"
| "binaryWrite (Slc bs) = bs"

text \<open>The closure \<^verbatim>\<open>bare\<close> of \<^verbatim>\<open>writeEntry\<close> on one field: written by \<^verbatim>\<open>binary.Write\<close>
  when \<^verbatim>\<open>binary.Size\<close> is positive; otherwise \<^verbatim>\<open>forEachField\<close> visits the elements of an
  array or slice and panics (\<^verbatim>\<open>gotBadType\<close>) on anything else.\<close>

fun bareField :: "fval \<Rightarrow> error + byte list" where
  "bareField v =
     (if sizeField v > 0 then Inr (binaryWrite v)
      else (case v of
              Arr bs \<Rightarrow> Inr (concat (map (\<lambda>b. binaryWrite (U8 b)) bs))
            | Slc bs \<Rightarrow> Inr (concat (map (\<lambda>b. binaryWrite (U8 b)) bs))
            | _ \<Rightarrow> Inl Panic))"

text \<open>Sequencing of fallible writers: the output so far is kept in front.\<close>

fun bareFields :: "fval list \<Rightarrow> error + byte list" where
  "bareFields [] = Inr []"
| "bareFields (v # vs) =
     (case bareField v of
        Inl e \<Rightarrow> Inl e
      | Inr bs \<Rightarrow> (case bareFields vs of Inl e \<Rightarrow> Inl e | Inr cs \<Rightarrow> Inr (bs @ cs)))"

text \<open>\<^verbatim>\<open>bare\<close> on the entry struct itself.\<close>

definition bare :: "fval list \<Rightarrow> error + byte list" where
  "bare fs =
     (if sizeStruct fs > 0 then Inr (concat (map binaryWrite fs)) else bareFields fs)"

text \<open>\<^verbatim>\<open>writeEntry\<close>: the sizing pass, then \<^verbatim>\<open>EntryCommon\<close> (the identifier and
  \<^verbatim>\<open>20 + uint32(sizer.cnt)\<close>), then the fields.\<close>

definition writeEntry :: "tname \<Rightarrow> fval list \<Rightarrow> error + byte list" where
  "writeEntry T fs =
     (case bare fs of
        Inl e \<Rightarrow> Inl Panic
      | Inr payload \<Rightarrow>
          Inr (TypeToID T @ PutUint32 (20 + word_of_nat (length payload)) @ payload))"

section \<open>Reading entries\<close>

record entryRead =
  at :: nat
  data :: "byte list"

text \<open>\<^verbatim>\<open>binary.Read\<close> through a pointer to one field, from a \<^verbatim>\<open>bytes.Reader\<close> at
  position \<open>pos\<close>: \<^verbatim>\<open>io.ReadFull\<close> of the field's size gives \<^verbatim>\<open>io.EOF\<close> when nothing is
  left and \<^verbatim>\<open>io.ErrUnexpectedEOF\<close> when the field is cut. The result is the value and the
  new position.\<close>

fun binaryRead :: "byte list \<Rightarrow> nat \<Rightarrow> fval \<Rightarrow> cause + (fval \<times> nat)" where
  "binaryRead d pos (Slc old) = Inl InvalidType"
| "binaryRead d pos v =
     (let n = nat (sizeField v); avail = length d - pos in
      if n = 0 then Inr (v, pos)
      else if avail = 0 then Inl IoEOF
      else if avail < n then Inl IoUnexpectedEOF
      else Inr ((case v of
                   U8 x \<Rightarrow> U8 (d ! pos)
                 | U32 x \<Rightarrow> U32 (Uint32 (take 4 (drop pos d)))
                 | Arr x \<Rightarrow> Arr (take n (drop pos d))
                 | Slc x \<Rightarrow> v), pos + n))"

text \<open>The callback that \<^verbatim>\<open>parseEntry\<close> gives to \<^verbatim>\<open>forEachField\<close>, run over the fields
  of the destination in order: a slice takes the rest of the data (the reader does not
  move), any other field is read by \<^verbatim>\<open>binary.Read\<close>, and the first error ends the loop.\<close>

fun parseFields :: "byte list \<Rightarrow> nat \<Rightarrow> fval list \<Rightarrow> cause + fval list" where
  "parseFields d pos [] = Inr []"
| "parseFields d pos (Slc old # vs) =
     (case parseFields d pos vs of
        Inl e \<Rightarrow> Inl e
      | Inr rest \<Rightarrow> Inr ((if pos \<noteq> length d then Slc (drop pos d) else Slc old) # rest))"
| "parseFields d pos (v # vs) =
     (case binaryRead d pos v of
        Inl e \<Rightarrow> Inl e
      | Inr (v', pos') \<Rightarrow>
          (case parseFields d pos' vs of Inl e \<Rightarrow> Inl e | Inr rest \<Rightarrow> Inr (v' # rest)))"

text \<open>The first \<^verbatim>\<open>binary.Read\<close> of \<^verbatim>\<open>parseEntry\<close> is given \<^verbatim>\<open>dest.Interface()\<close>, the
  struct itself and not a pointer to it. \<^verbatim>\<open>binary.Read\<close> accepts only pointers and
  slices: for any other value it returns its "invalid type" error before it reads.\<close>

definition binaryReadValue :: "byte list \<Rightarrow> fval list \<Rightarrow> cause option" where
  "binaryReadValue d dest = Some InvalidType"

text \<open>\<^verbatim>\<open>parseEntry\<close>. The result is the destination struct after the call.\<close>

definition parseEntry :: "entryRead \<Rightarrow> fval list \<Rightarrow> error + fval list" where
  "parseEntry ent dest =
     (case binaryReadValue (data ent) dest of
        Some IoEOF \<Rightarrow> Inr dest
      | Some IoUnexpectedEOF \<Rightarrow> Inl (BadEntry (at ent) FieldIncomplete)
      | _ \<Rightarrow>
        (case parseFields (data ent) 0 dest of
           Inl e \<Rightarrow> Inl (BadEntry (at ent) e)
         | Inr fs \<Rightarrow> Inr fs))"

text \<open>\<^verbatim>\<open>splitEntries\<close>. The Go map from identifiers to slices is a function whose value
  at an absent key is the empty slice. \<^verbatim>\<open>data[20:entSize]\<close> panics when
  \<open>entSize < 20\<close>.\<close>

function splitEntries ::
  "(byte list \<Rightarrow> entryRead list) \<Rightarrow> byte list \<Rightarrow> nat \<Rightarrow> error + (byte list \<Rightarrow> entryRead list)"
where
  "splitEntries result d start =
     (if length d = 0 then Inr result
      else if length d < 20 then Inl (BadEntry start CrossesBoundary)
      else
        (let entSize = unat (Uint32 (take 4 (drop 16 d))) in
         if entSize > length d then Inl (BadEntry start CrossesBoundary)
         else if entSize < 20 then Inl Panic
         else
           (let typeID = take 16 d in
            splitEntries
              (result(typeID := result typeID @ [\<lparr>at = start, data = take (entSize - 20) (drop 20 d)\<rparr>]))
              (drop entSize d) (start + entSize))))"
  by pat_completeness auto
termination
  by (relation "measure (\<lambda>(result, d, start). length d)") auto

declare splitEntries.simps [simp del]

text \<open>The destination of \<^verbatim>\<open>parseEntries\<close> is a struct whose fields are entry structs
  (at most one such entry is expected) or slices of entry structs.\<close>

datatype slot = Single tname "fval list" | Many tname "fval list list"

text \<open>The loop over \<^verbatim>\<open>toParse\<close> in the slice case: every element starts from the zero
  value that \<^verbatim>\<open>reflect.MakeSlice\<close> gives.\<close>

fun parseMany :: "entryRead list \<Rightarrow> tname \<Rightarrow> error + fval list list" where
  "parseMany [] T = Inr []"
| "parseMany (e # es) T =
     (case parseEntry e (zeroValue T) of
        Inl err \<Rightarrow> Inl err
      | Inr v \<Rightarrow> (case parseMany es T of Inl err \<Rightarrow> Inl err | Inr vs \<Rightarrow> Inr (v # vs)))"

text \<open>The callback of \<^verbatim>\<open>parseEntries\<close> over the fields of the destination;
  \<^verbatim>\<open>delete(ent, typeID)\<close> empties the bucket.\<close>

fun parseSlots :: "(byte list \<Rightarrow> entryRead list) \<Rightarrow> slot list \<Rightarrow> error + slot list" where
  "parseSlots ent [] = Inr []"
| "parseSlots ent (Many T old # ss) =
     (let typeID = TypeToID T; toParse = ent typeID in
      if length toParse = 0 then
        (case parseSlots (ent(typeID := [])) ss of
           Inl err \<Rightarrow> Inl err | Inr rest \<Rightarrow> Inr (Many T old # rest))
      else
        (case parseMany toParse T of
           Inl err \<Rightarrow> Inl err
         | Inr vs \<Rightarrow>
             (case parseSlots (ent(typeID := [])) ss of
                Inl err \<Rightarrow> Inl err | Inr rest \<Rightarrow> Inr (Many T vs # rest))))"
| "parseSlots ent (Single T old # ss) =
     (let typeID = TypeToID T; es = ent typeID in
      if length es = 0 then
        (case parseSlots (ent(typeID := [])) ss of
           Inl err \<Rightarrow> Inl err | Inr rest \<Rightarrow> Inr (Single T old # rest))
      else
        (case parseEntry (last es) old of
           Inl err \<Rightarrow> Inl err
         | Inr v \<Rightarrow>
             (case parseSlots (ent(typeID := [])) ss of
                Inl err \<Rightarrow> Inl err | Inr rest \<Rightarrow> Inr (Single T v # rest))))"

definition parseEntries :: "byte list \<Rightarrow> nat \<Rightarrow> slot list \<Rightarrow> error + slot list" where
  "parseEntries d bytesSkipped result =
     (case splitEntries (\<lambda>typeID. []) d bytesSkipped of
        Inl err \<Rightarrow> Inl err
      | Inr ent \<Rightarrow> parseSlots ent result)"

text \<open>A legal payload of a registered type: every field has the declared kind, and the
  length of the entry fits the 32-bit length field.\<close>

definition legalPayload :: "tname \<Rightarrow> fval list \<Rightarrow> bool" where
  "legalPayload T p =
     (list_all2 conforms (structFields T) p \<and> 20 + length (concat (map binaryWrite p)) < 2 ^ 32)"

text \<open>In every registered struct a slice can only be the last field.\<close>

definition sliceLast :: "kind list \<Rightarrow> bool" where
  "sliceLast ks = (KSlice \<notin> set (butlast ks))"

section \<open>QCOW2 synthesis (extractImage)\<close>

type_synonym i32 = "32 word"

text \<open>The struct \<^verbatim>\<open>entries.Ending\<close>.\<close>

record Ending =
  Ending_Length :: u32
  Ending_Start :: u32
  Ending_Prev :: u32
  DataClusterCount :: u32
  ClusterSizeExp :: byte
  ClustersOffset :: u32

record qcow3Header =
  Magic :: u32
  Version :: u32
  BackingFileOffset :: u64
  BackingFileSize :: u32
  ClusterBits :: u32
  Size :: u64
  CryptMethod :: u32
  L1Size :: u32
  L1TableOffset :: u64
  RefcountTableOffset :: u64
  RefcountTableClusters :: u32
  NbSnapshots :: u32
  SnapshotsOffset :: u64
  IncompatibleFeatures :: u64
  CompatibleFeatures :: u64
  AutoclearFeatures :: u64
  RefcountOrder :: u32
  HeaderLength :: u32

text \<open>\<^verbatim>\<open>clusterExp := 9 + ending.Ending.ClusterSizeExp\<close> is arithmetic on \<^verbatim>\<open>byte\<close>: it
  wraps at 256. Shift counts are its value as a number.\<close>

definition clusterExp :: "Ending \<Rightarrow> byte" where
  "clusterExp e = 9 + ClusterSizeExp e"

text \<open>\<^verbatim>\<open>allocatedClusters\<close>, on \<^verbatim>\<open>int64\<close> file offsets (arithmetic shift).\<close>

definition allocatedClusters :: "int \<Rightarrow> int \<Rightarrow> Ending \<Rightarrow> int" where
  "allocatedClusters end start e =
     drop_bit (unat (clusterExp e)) (end - start + 512 * uint (ClustersOffset e))"

definition l1Start :: "Ending \<Rightarrow> u64" where
  "l1Start e = push_bit (unat (clusterExp e)) 1"

text \<open>The length given to \<^verbatim>\<open>make([]int32, ...)\<close>:
  \<^verbatim>\<open>-(int32(-dataClusterCount) >> (clusterExp - 2))\<close>, all in 32 bits, the shift arithmetic
  and its count a \<^verbatim>\<open>byte\<close>.\<close>

definition l1Len :: "Ending \<Rightarrow> int" where
  "l1Len e = sint (- (signed_drop_bit (unat (clusterExp e - 2)) (- DataClusterCount e)))"

text \<open>\<^verbatim>\<open>l1ClusterCount := -(-len(l1Data) >> (clusterExp - 4))\<close> on \<^verbatim>\<open>int\<close>.\<close>

definition l1ClusterCount :: "Ending \<Rightarrow> nat \<Rightarrow> int" where
  "l1ClusterCount e len = - drop_bit (unat (clusterExp e - 4)) (- int len)"

definition regularClustersEntryOffset :: "Ending \<Rightarrow> nat \<Rightarrow> u64" where
  "regularClustersEntryOffset e len =
     0x8000000000000000 OR
       (l1Start e + push_bit (unat (clusterExp e)) (word_of_int (l1ClusterCount e len)))"

text \<open>The closure \<^verbatim>\<open>readIndex\<close> on the value it has read (its log lines left out).\<close>

definition readIndex :: "int \<Rightarrow> i32 \<Rightarrow> i32" where
  "readIndex allocated result =
     (if sint result < 0 then result
      else if sint result > allocated then -1 else result)"

text \<open>Reading \<open>n\<close> indices from the source at byte \<open>pos\<close>; \<^verbatim>\<open>binary.Read\<close> fails at
  the end of the file.\<close>

fun readIndices :: "byte list \<Rightarrow> nat \<Rightarrow> int \<Rightarrow> nat \<Rightarrow> error + i32 list" where
  "readIndices src pos allocated 0 = Inr []"
| "readIndices src pos allocated (Suc n) =
     (if length src < pos + 4 then Inl IOError
      else (case readIndices src (pos + 4) allocated n of
              Inl err \<Rightarrow> Inl err
            | Inr rest \<Rightarrow> Inr (readIndex allocated (Uint32 (take 4 (drop pos src))) # rest)))"

text \<open>\<^verbatim>\<open>l2AtSrc\<close>: the non-negative entries, sorted by \<^verbatim>\<open>sort.Ints\<close>.\<close>

definition l2AtSrc :: "i32 list \<Rightarrow> int list" where
  "l2AtSrc l1Data = sort (map sint (filter (\<lambda>v. sint v \<ge> 0) l1Data))"

text \<open>\<^verbatim>\<open>sort.SearchInts\<close> on a sorted slice: the least index whose element is not below
  \<open>x\<close>.\<close>

definition SearchInts :: "int list \<Rightarrow> int \<Rightarrow> nat" where
  "SearchInts a x = length (takeWhile (\<lambda>y. y < x) a)"

definition countL2TablesBefore :: "i32 list \<Rightarrow> i32 \<Rightarrow> nat" where
  "countL2TablesBefore l1Data srcCluster = SearchInts (l2AtSrc l1Data) (sint srcCluster)"

text \<open>The header that \<^verbatim>\<open>extractImage\<close> writes; the fields it does not name are zero.\<close>

definition qcowHeader :: "Ending \<Rightarrow> nat \<Rightarrow> qcow3Header" where
  "qcowHeader e len =
     \<lparr> Magic = 0x514649fb,
       Version = 3,
       BackingFileOffset = 0,
       BackingFileSize = 0,
       ClusterBits = ucast (clusterExp e),
       Size = push_bit (unat (clusterExp e)) (ucast (DataClusterCount e)),
       CryptMethod = 0,
       L1Size = word_of_nat (2 * len),
       L1TableOffset = l1Start e,
       RefcountTableOffset = push_bit (unat (clusterExp e)) 1,
       RefcountTableClusters = 1,
       NbSnapshots = 0,
       SnapshotsOffset = 0,
       IncompatibleFeatures = 1,
       CompatibleFeatures = 0,
       AutoclearFeatures = 0,
       RefcountOrder = 0,
       HeaderLength = 104 \<rparr>"

text \<open>The two big-endian 64-bit values written to the L1 table for one source entry.\<close>

definition l1Entry :: "Ending \<Rightarrow> i32 list \<Rightarrow> i32 \<Rightarrow> u64 list" where
  "l1Entry e l1Data l2 =
     (if sint l2 < 0 then [0, 0]
      else
        (let at = regularClustersEntryOffset e (length l1Data)
                   + push_bit (unat (clusterExp e))
                       (word_of_nat (countL2TablesBefore l1Data l2) + scast l2)
         in [at, at + push_bit (unat (clusterExp e)) 1]))"

text \<open>\<^verbatim>\<open>extractImage\<close> without \<^verbatim>\<open>--raw\<close>, from its start to the end of the loop that
  writes the L1 table: the header and the L1 table of the image, or the error that stops
  it before. \<open>src\<close> is the archive, \<open>end\<close> the byte where the image ends. Opening the
  output and writing to it are taken to succeed.\<close>

definition extractImage :: "byte list \<Rightarrow> int \<Rightarrow> Ending \<Rightarrow> error + (qcow3Header \<times> u64 list)" where
  "extractImage src end e =
     (let start = 512 * uint (Ending_Start e) in
      if start > end then Inl ExtractError
      else if l1Len e < 0 then Inl Panic
      else
        (case readIndices src (nat start) (allocatedClusters end start e) (nat (l1Len e)) of
           Inl err \<Rightarrow> Inl err
         | Inr l1Data \<Rightarrow>
             Inr (qcowHeader e (length l1Data), concat (map (l1Entry e l1Data) l1Data))))"


section \<open>Library functions taken as parameters\<close>

text \<open>SHA-256, CRC-32 (Castagnoli) and RSA-OAEP with the configured keys belong to Go's
  standard library. They are parameters of the model: every theorem holds for all of
  them. \<open>ParsePKCS1PublicKey\<close> tells whether \<^verbatim>\<open>x509.ParsePKCS1PublicKey\<close> accepts the
  bytes.\<close>

record stdlib =
  sha256 :: "byte list \<Rightarrow> byte list"
  crc32c :: "byte list \<Rightarrow> u32"
  EncryptOAEP :: "byte list \<Rightarrow> byte list option"
  DecryptOAEP :: "byte list \<Rightarrow> byte list option"
  ParsePKCS1PublicKey :: "byte list \<Rightarrow> bool"

text \<open>\<^verbatim>\<open>sha256.Sum256\<close> returns \<^verbatim>\<open>[32]byte\<close>: the parameter's result is cut or padded to
  32 bytes, so that every instance has the library's type.\<close>

definition Sum256 :: "stdlib \<Rightarrow> byte list \<Rightarrow> byte list" where
  "Sum256 L d = take 32 (sha256 L d @ replicate 32 0)"

text \<open>Sequencing of fallible steps.\<close>

definition andThen :: "error + 'a \<Rightarrow> ('a \<Rightarrow> error + 'b) \<Rightarrow> error + 'b" where
  "andThen r f = (case r of Inl e \<Rightarrow> Inl e | Inr x \<Rightarrow> f x)"

section \<open>End pointers (common.go)\<close>

definition BlockSize :: int where
  "BlockSize = 512"

text \<open>The 32-byte literal that stands in the checksum field while the checksum is
  computed.\<close>

definition endPointerLiteral :: "byte list" where
  "endPointerLiteral = ascii ''END-POINTER'' @ replicate 21 0"

text \<open>\<^verbatim>\<open>computeEndPointerChecksum\<close>. \<^verbatim>\<open>data[:32]\<close> panics on a shorter slice, and so does an
  unknown algorithm. The function also leaves the literal in the caller's buffer; both
  callers overwrite or ignore those 32 bytes afterwards.\<close>

definition computeEndPointerChecksum :: "stdlib \<Rightarrow> byte list \<Rightarrow> u32 \<Rightarrow> error + byte list" where
  "computeEndPointerChecksum L d algo =
     (if length d < 32 then Inl Panic
      else
        (let d' = copy (take 32 d) endPointerLiteral @ drop 32 d in
         if algo = 0 then Inr (Sum256 L d')
         else if algo = 1 then Inr (copy (take 4 (replicate 32 0)) (PutUint32 (crc32c L d')) @ drop 4 (replicate 32 0))
         else Inl Panic))"

text \<open>\<^verbatim>\<open>makeEndPointer\<close>: 512 zero bytes, the target at [32, 36), the checksum at
  [0, 32).\<close>

definition makeEndPointer :: "stdlib \<Rightarrow> u32 \<Rightarrow> u32 \<Rightarrow> error + byte list" where
  "makeEndPointer L pointTo checksumType =
     (let z = replicate 512 0;
          d = take 32 z @ copy (take 4 (drop 32 z)) (PutUint32 pointTo) @ drop 36 z
      in andThen (computeEndPointerChecksum L d checksumType)
           (\<lambda>c. Inr (copy (take 32 d) c @ drop 32 d)))"

section \<open>The archive header (package entries) and its two views\<close>

text \<open>The fields of \<^verbatim>\<open>ArchiveHeaderWrite\<close> and \<^verbatim>\<open>ArchiveHeaderRead\<close> in one record, the
  nested structs flattened. \<^verbatim>\<open>CvtmMagic\<close> belongs to the written struct only,
  \<^verbatim>\<open>AllocateOnce\<close> and \<^verbatim>\<open>SdCid\<close> to the one that is read. A \<^verbatim>\<open>GlobalLogLocat\<close> is the pair
  of its \<open>Start\<close> and \<open>Count\<close>.\<close>

record ArchiveHeader =
  CvtmMagic_Checksum :: "byte list"
  CvtmMagic_HeaderLength :: u32
  AllocateOnce_AllocationIncrement :: u32
  EndPointerChec_Algo :: u32
  EndPointerLoca :: "u32 list"
  EndingCipher_Algo :: u32
  EndingCipher_Key :: "byte list"
  EndingSize_Size :: u32
  GlobalLogLocat :: "(u32 \<times> u32) list"
  ImageArea_Start :: u32
  ImageArea_End :: u32
  ImageBasic_ImgCipher :: u32
  ImageBasic_ImgClusterSizeExp :: byte
  ImageLog :: "u32 list"
  SdCid :: "byte list"

text \<open>What reflection sees of an \<^verbatim>\<open>ArchiveHeaderWrite\<close>, field by field (\<^verbatim>\<open>Optional\<close> is
  empty in every header the writer builds, and writes nothing).\<close>

definition writeSlots :: "ArchiveHeader \<Rightarrow> slot list" where
  "writeSlots h =
     [ Single TCvtmMagic [Arr (CvtmMagic_Checksum h), U32 (CvtmMagic_HeaderLength h)],
       Single TEndPointerChec [U32 (EndPointerChec_Algo h)],
       Many TEndPointerLoca (map (\<lambda>b. [U32 b]) (EndPointerLoca h)),
       Single TEndingCipher [U32 (EndingCipher_Algo h), Slc (EndingCipher_Key h)],
       Single TEndingSize [U32 (EndingSize_Size h)],
       Many TGlobalLogLocat (map (\<lambda>(s, c). [U32 s, U32 c]) (GlobalLogLocat h)),
       Single TImageArea [U32 (ImageArea_Start h), U32 (ImageArea_End h)],
       Single TImageBasic [U32 (ImageBasic_ImgCipher h), U8 (ImageBasic_ImgClusterSizeExp h)],
       Many TImageLog (map (\<lambda>c. [U32 c]) (ImageLog h)) ]"

text \<open>The zero \<^verbatim>\<open>ArchiveHeaderRead\<close> as reflection sees it, and the struct read back from
  such a view.\<close>

definition readSlots :: "slot list" where
  "readSlots =
     [ Single TAllocateOnce (zeroValue TAllocateOnce),
       Single TEndPointerChec (zeroValue TEndPointerChec),
       Many TEndPointerLoca [],
       Single TEndingCipher (zeroValue TEndingCipher),
       Single TEndingSize (zeroValue TEndingSize),
       Many TGlobalLogLocat [],
       Single TImageArea (zeroValue TImageArea),
       Single TImageBasic (zeroValue TImageBasic),
       Many TImageLog [],
       Single TSdCid (zeroValue TSdCid) ]"

definition u32At :: "fval list \<Rightarrow> nat \<Rightarrow> u32" where
  "u32At fs i = (case drop i fs of U32 w # rest \<Rightarrow> w | _ \<Rightarrow> 0)"

definition u8At :: "fval list \<Rightarrow> nat \<Rightarrow> byte" where
  "u8At fs i = (case drop i fs of U8 b # rest \<Rightarrow> b | _ \<Rightarrow> 0)"

definition bytesAt :: "fval list \<Rightarrow> nat \<Rightarrow> byte list" where
  "bytesAt fs i = (case drop i fs of Arr bs # rest \<Rightarrow> bs | Slc bs # rest \<Rightarrow> bs | _ \<Rightarrow> [])"

definition single :: "slot list \<Rightarrow> nat \<Rightarrow> fval list" where
  "single ss i = (case drop i ss of Single T fs # rest \<Rightarrow> fs | _ \<Rightarrow> [])"

definition many :: "slot list \<Rightarrow> nat \<Rightarrow> fval list list" where
  "many ss i = (case drop i ss of Many T fss # rest \<Rightarrow> fss | _ \<Rightarrow> [])"

definition headerOfSlots :: "slot list \<Rightarrow> ArchiveHeader" where
  "headerOfSlots ss =
     \<lparr> CvtmMagic_Checksum = replicate 32 0,
       CvtmMagic_HeaderLength = 0,
       AllocateOnce_AllocationIncrement = u32At (single ss 0) 0,
       EndPointerChec_Algo = u32At (single ss 1) 0,
       EndPointerLoca = map (\<lambda>fs. u32At fs 0) (many ss 2),
       EndingCipher_Algo = u32At (single ss 3) 0,
       EndingCipher_Key = bytesAt (single ss 3) 1,
       EndingSize_Size = u32At (single ss 4) 0,
       GlobalLogLocat = map (\<lambda>fs. (u32At fs 0, u32At fs 1)) (many ss 5),
       ImageArea_Start = u32At (single ss 6) 0,
       ImageArea_End = u32At (single ss 6) 1,
       ImageBasic_ImgCipher = u32At (single ss 7) 0,
       ImageBasic_ImgClusterSizeExp = u8At (single ss 7) 1,
       ImageLog = map (\<lambda>fs. u32At fs 0) (many ss 8),
       SdCid = bytesAt (single ss 9) 0 \<rparr>"

text \<open>\<^verbatim>\<open>writeMultipleEntries\<close>: one entry for a struct field, one per element for a slice
  field.\<close>

fun writeEach :: "tname \<Rightarrow> fval list list \<Rightarrow> error + byte list" where
  "writeEach T [] = Inr []"
| "writeEach T (fs # fss) =
     andThen (writeEntry T fs) (\<lambda>bs. andThen (writeEach T fss) (\<lambda>cs. Inr (bs @ cs)))"

fun writeMultipleEntries :: "slot list \<Rightarrow> error + byte list" where
  "writeMultipleEntries [] = Inr []"
| "writeMultipleEntries (Single T fs # ss) =
     andThen (writeEntry T fs) (\<lambda>bs. andThen (writeMultipleEntries ss) (\<lambda>cs. Inr (bs @ cs)))"
| "writeMultipleEntries (Many T fss # ss) =
     andThen (writeEach T fss) (\<lambda>bs. andThen (writeMultipleEntries ss) (\<lambda>cs. Inr (bs @ cs)))"

text \<open>\<^verbatim>\<open>sizeOfHeader\<close> panics when writing to the sizing sink fails.\<close>

definition sizeOfHeader :: "ArchiveHeader \<Rightarrow> error + int" where
  "sizeOfHeader h =
     (case writeMultipleEntries (writeSlots h) of
        Inl e \<Rightarrow> Inl Panic
      | Inr bs \<Rightarrow> Inr (int (length bs)))"

section \<open>Writing an empty archive (common.go)\<close>

text \<open>\<^verbatim>\<open>NewArchiveOptions\<close>. The logs are given by their sizes. Of the RSA public key the
  writer uses \<^verbatim>\<open>Size()\<close>, the length of the modulus in bytes, and its PKCS#1 encoding.
  The output is the pair of the file's contents and the random source at the start.\<close>

record NewArchiveOptions =
  DiskSize :: int
  GlobalLogs :: "u32 list"
  ImgLogs :: "u32 list"
  EndPointersHead :: nat
  EndPointersTail :: nat
  EndingCipher :: u32
  EndPointerChecksum :: u32
  PublicKeySize :: int
  PublicKeyPKCS1 :: "byte list"
  ImgCipher :: u32
  ImgClusterSizeExp :: byte
  AlignmentBlocks :: int
  FillMethod :: u32

text \<open>\<^verbatim>\<open>alignUp\<close> and \<^verbatim>\<open>alignDown\<close>, on \<^verbatim>\<open>int64\<close> in two's complement. Go's \<^verbatim>\<open>/\<close>
  truncates towards zero.\<close>

definition alignUp :: "int \<Rightarrow> int \<Rightarrow> int" where
  "alignUp n alignment = (n + (alignment - 1)) AND (- alignment)"

definition alignDown :: "int \<Rightarrow> int \<Rightarrow> int" where
  "alignDown n alignment = n AND (- alignment)"

definition quot :: "int \<Rightarrow> int \<Rightarrow> int" where
  "quot a b = sgn a * sgn b * (\<bar>a\<bar> div \<bar>b\<bar>)"

text \<open>The switch on \<^verbatim>\<open>conf.EndingCipher\<close> that gives \<^verbatim>\<open>endingSize\<close>.\<close>

definition endingSizeOf :: "NewArchiveOptions \<Rightarrow> error + u32" where
  "endingSizeOf conf =
     (if EndingCipher conf = 0 then Inr 1
      else if EndingCipher conf = 1 then Inr (word_of_int (alignUp (PublicKeySize conf) BlockSize))
      else Inl Panic)"

text \<open>The loop over \<^verbatim>\<open>conf.GlobalLogs\<close>: the entries, and \<^verbatim>\<open>imgAreaStart\<close> after it.\<close>

fun placeGlobalLogs :: "int \<Rightarrow> int \<Rightarrow> u32 list \<Rightarrow> (u32 \<times> u32) list \<times> int" where
  "placeGlobalLogs alignment imgAreaStart [] = ([], imgAreaStart)"
| "placeGlobalLogs alignment imgAreaStart (v # vs) =
     (let (rest, final) = placeGlobalLogs alignment (imgAreaStart + alignUp (uint v) alignment) vs
      in ((word_of_int imgAreaStart, v) # rest, final))"

text \<open>The numbers that \<^verbatim>\<open>WriteEmptyArchive\<close> computes before it writes, with the
  header.\<close>

record layout =
  header :: ArchiveHeader
  endPointerStart :: int
  imgAreaStart :: int
  imgAreaEnd :: int
  sentinelEnd :: int

text \<open>The first part of \<^verbatim>\<open>WriteEmptyArchive\<close>, up to the header's checksum.\<close>

definition assembleHeader :: "stdlib \<Rightarrow> NewArchiveOptions \<Rightarrow> error + layout" where
  "assembleHeader L conf =
     (let alignment = AlignmentBlocks conf;
          head = EndPointersHead conf;
          tail = EndPointersTail conf
      in
      andThen (endingSizeOf conf) (\<lambda>endingSize.
      let skeleton =
            \<lparr> CvtmMagic_Checksum = replicate 32 0,
              CvtmMagic_HeaderLength = 0,
              AllocateOnce_AllocationIncrement = 0,
              EndPointerChec_Algo = EndPointerChecksum conf,
              EndPointerLoca = replicate (head + tail) 0,
              EndingCipher_Algo = EndingCipher conf,
              EndingCipher_Key = (if EndingCipher conf = 1 then PublicKeyPKCS1 conf else []),
              EndingSize_Size = endingSize,
              GlobalLogLocat = replicate (length (GlobalLogs conf)) (0, 0),
              ImageArea_Start = 0,
              ImageArea_End = 0,
              ImageBasic_ImgCipher = ImgCipher conf,
              ImageBasic_ImgClusterSizeExp = ImgClusterSizeExp conf,
              ImageLog = replicate (length (ImgLogs conf)) 0,
              SdCid = replicate 15 0 \<rparr>
      in
      andThen (sizeOfHeader skeleton) (\<lambda>headerSize.
      let start0 = quot (alignUp headerSize (alignment * BlockSize)) BlockSize;
          (logs, start1) = placeGlobalLogs alignment start0 (GlobalLogs conf);
          heads = map (\<lambda>i. word_of_int (start1 + int i * alignment)) [0 ..< head];
          start2 = start1 + int head * alignment;
          end2 = alignDown (quot (DiskSize conf) BlockSize) alignment - alignment * int tail;
          tails = map (\<lambda>i. word_of_int end2 + word_of_nat i * word_of_int alignment) [0 ..< tail];
          h = skeleton
                \<lparr> CvtmMagic_HeaderLength := word_of_int headerSize,
                  ImageLog := ImgLogs conf,
                  GlobalLogLocat := logs,
                  EndPointerLoca := heads @ tails,
                  ImageArea_Start := word_of_int start2,
                  ImageArea_End := word_of_int end2 \<rparr>;
          sentinel = start2 + uint endingSize
      in
      if sentinel > end2 then Inl NotEnoughSpace
      else
        (case writeMultipleEntries (writeSlots h) of
           Inl e \<Rightarrow> Inl Panic
         | Inr bs \<Rightarrow>
             Inr \<lparr> header = h \<lparr> CvtmMagic_Checksum := Sum256 L bs \<rparr>,
                   endPointerStart = start1,
                   imgAreaStart = start2,
                   imgAreaEnd = end2,
                   sentinelEnd = sentinel \<rparr>))))"

text \<open>The output: the \<^verbatim>\<open>fillSeeker\<close> over the buffered file. \<open>target\<close> is the contents
  of the file (writing past its end fills the gap with zeros, as a file does),
  \<open>fill_method\<close> the field \<^verbatim>\<open>method\<close>, \<open>randReader\<close> what is left of the random source.\<close>

record fillSeeker =
  target :: "byte list"
  pos :: int
  fill_method :: u32
  randReader :: "nat \<Rightarrow> byte"

definition writeAt :: "byte list \<Rightarrow> nat \<Rightarrow> byte list \<Rightarrow> byte list" where
  "writeAt f p d =
     (let f' = f @ replicate (p - length f) 0 in take p f' @ d @ drop (p + length d) f')"

definition Write :: "fillSeeker \<Rightarrow> byte list \<Rightarrow> fillSeeker" where
  "Write w p = w \<lparr> target := writeAt (target w) (nat (pos w)) p, pos := pos w + int (length p) \<rparr>"

text \<open>\<^verbatim>\<open>writeZeros\<close> and \<^verbatim>\<open>writeRandom\<close> panic on a negative size.\<close>

definition writeZeros :: "fillSeeker \<Rightarrow> int \<Rightarrow> error + fillSeeker" where
  "writeZeros w sz = (if sz < 0 then Inl Panic else Inr (Write w (replicate (nat sz) 0)))"

definition writeRandom :: "fillSeeker \<Rightarrow> int \<Rightarrow> error + fillSeeker" where
  "writeRandom w sz =
     (if sz < 0 then Inl Panic
      else Inr ((Write w (map (randReader w) [0 ..< nat sz]))
                  \<lparr> randReader := (\<lambda>i. randReader w (i + nat sz)) \<rparr>))"

text \<open>\<^verbatim>\<open>fillSeeker.Seek\<close>; \<open>whence\<close> is 0 for \<^verbatim>\<open>io.SeekStart\<close> and 1 for
  \<^verbatim>\<open>io.SeekCurrent\<close>. With \<^verbatim>\<open>FillSeek\<close> (0) the file itself seeks, which fails on a
  negative position; \<^verbatim>\<open>FillZero\<close> is 1, \<^verbatim>\<open>FillRandom\<close> 2.\<close>

definition Seek :: "fillSeeker \<Rightarrow> int \<Rightarrow> nat \<Rightarrow> error + fillSeeker" where
  "Seek w offset whence =
     (if (whence = 0 \<and> offset = pos w) \<or> (whence = 1 \<and> offset = 0) then Inr w
      else if fill_method w = 0 then
        (let p = (if whence = 0 then offset else pos w + offset) in
         if whence > 2 \<or> p < 0 then Inl IOError else Inr (w \<lparr> pos := p \<rparr>))
      else if whence > 1 then Inl IOError
      else
        (let fill = (if whence = 0 then offset - pos w else offset) in
         if fill < 0 then Inl FillBackwards
         else if fill_method w = 1 then writeZeros w fill
         else if fill_method w = 2 then writeRandom w fill
         else Inl Panic))"

definition alignWriter :: "fillSeeker \<Rightarrow> int \<Rightarrow> error + fillSeeker" where
  "alignWriter w alignment = Seek w ((alignment - 1) AND (- pos w)) 1"

fun writeRepeatedly :: "fillSeeker \<Rightarrow> byte list \<Rightarrow> nat \<Rightarrow> int \<Rightarrow> error + fillSeeker" where
  "writeRepeatedly dest d 0 alignment = Inr dest"
| "writeRepeatedly dest d (Suc repeat) alignment =
     andThen (alignWriter (Write dest d) alignment)
       (\<lambda>dest'. writeRepeatedly dest' d repeat alignment)"

text \<open>\<^verbatim>\<open>writeImageEnding\<close>: the entries, encrypted as one message when the cipher is RSA,
  padded with random bytes to \<open>blocks\<close> blocks.\<close>

definition writeImageEnding ::
  "stdlib \<Rightarrow> fillSeeker \<Rightarrow> slot list \<Rightarrow> u32 \<Rightarrow> nat \<Rightarrow> error + fillSeeker" where
  "writeImageEnding L dest ent cipher blocks =
     andThen (writeMultipleEntries ent) (\<lambda>plain.
     andThen (if cipher = 1
              then (case EncryptOAEP L plain of None \<Rightarrow> Inl IOError | Some c \<Rightarrow> Inr c)
              else Inr plain) (\<lambda>d.
     let sz = blocks * 512 in
     if length d > sz then Inl EndingTooLong
     else
       (let padTail = sz - length d; dest' = Write dest d in
        if padTail \<noteq> 0 then writeRandom dest' (int padTail) else Inr dest')))"

text \<open>\<^verbatim>\<open>WriteEmptyArchive\<close>. \<open>old\<close> is what the output file holds before, \<open>rnd\<close> the random
  source. The result is the file after the last seek.\<close>

definition WriteEmptyArchive ::
  "stdlib \<Rightarrow> NewArchiveOptions \<Rightarrow> (nat \<Rightarrow> byte) \<Rightarrow> byte list \<Rightarrow> error + byte list" where
  "WriteEmptyArchive L conf rnd old =
     (let alignment = AlignmentBlocks conf;
          dest = \<lparr> target = old, pos = 0, fill_method = FillMethod conf, randReader = rnd \<rparr>
      in
      andThen (assembleHeader L conf) (\<lambda>lay.
      andThen (writeMultipleEntries (writeSlots (header lay))) (\<lambda>bs.
      andThen (writeZeros (Write dest bs)
                 (endPointerStart lay * BlockSize - pos (Write dest bs))) (\<lambda>dest1.
      andThen (makeEndPointer L (word_of_int (sentinelEnd lay)) (EndPointerChecksum conf))
        (\<lambda>endPointer.
      andThen (writeRepeatedly dest1 endPointer (EndPointersHead conf) (alignment * BlockSize))
        (\<lambda>dest2.
      andThen (Seek dest2 (imgAreaStart lay * BlockSize) 0) (\<lambda>dest3.
      andThen (writeImageEnding L dest3 [Single TNoMoreImages []] (EndingCipher conf)
                 (unat (EndingSize_Size (header lay)))) (\<lambda>dest4.
      andThen (Seek dest4 (imgAreaEnd lay * BlockSize) 0) (\<lambda>dest5.
      andThen (writeRepeatedly dest5 endPointer (EndPointersTail conf) (alignment * BlockSize))
        (\<lambda>dest6.
      andThen (Seek dest6 (DiskSize conf) 0) (\<lambda>dest7. Inr (target dest7))))))))))))"

section \<open>Reading the archive header\<close>

definition maxHeaderSize :: nat where
  "maxHeaderSize = 0x100000"

definition maxEndingSize :: u32 where
  "maxEndingSize = 32"

text \<open>\<^verbatim>\<open>ExtractOptions\<close>: the archive file, and whether a private key was given. The
  template of the image names, \<^verbatim>\<open>Overwrite\<close> and \<^verbatim>\<open>Raw\<close> do not reach the model.\<close>

record ExtractOptions =
  File :: "byte list"
  PrivateKey :: bool

text \<open>\<^verbatim>\<open>checkArchiveHeader\<close>. The errors it collects are counted; warnings are only
  logged. The header's public key is parsed only to compare it with the private key.\<close>

definition badEndPointerLocation :: "ArchiveHeader \<Rightarrow> u32 \<Rightarrow> u32 \<Rightarrow> bool" where
  "badEndPointerLocation h headerBlks blk =
     (\<not> ((blk \<ge> headerBlks \<and> blk < ImageArea_Start h) \<or> blk \<ge> ImageArea_End h))"

definition checkArchiveHeader ::
  "stdlib \<Rightarrow> ExtractOptions \<Rightarrow> ArchiveHeader \<Rightarrow> u32 \<Rightarrow> error + unit" where
  "checkArchiveHeader L options h headerSize =
     (let e1 = (if EndingSize_Size h > maxEndingSize then 1 else 0);
          e2 = (if EndingCipher_Algo h = 0 then 0
                else if EndingCipher_Algo h = 1 then
                  (if \<not> ParsePKCS1PublicKey L (EndingCipher_Key h) then 0
                   else if \<not> PrivateKey options then 1 else 0)
                else 1);
          e3 = (if EndPointerChec_Algo h > 2 then 1 else 0);
          e4 = (if length (EndPointerLoca h) = 0 then 1 else 0);
          headerBlks = (headerSize + 512 - 1) div 512;
          e5 = length (filter (badEndPointerLocation h headerBlks) (EndPointerLoca h));
          errs = e1 + e2 + e3 + e4 + e5
      in if errs \<noteq> 0 then Inl (HeaderErrors errs) else Inr ())"

text \<open>\<^verbatim>\<open>bufio.Reader.Read\<close> on a fresh reader over the file gives at most what one read
  of the file put into its 4096-byte buffer. The two reads of \<^verbatim>\<open>readArchiveHeader\<close>:
  the first asks for 56 bytes; the second, for \<open>k\<close> more, is served from what is left
  in the buffer, and meets the end of the file when the buffer is empty.\<close>

definition bufioSize :: nat where
  "bufioSize = 4096"

definition firstRead :: "byte list \<Rightarrow> error + byte list" where
  "firstRead file = (if file = [] then Inl IOError else Inr (take 56 (take bufioSize file)))"

definition secondRead :: "byte list \<Rightarrow> nat \<Rightarrow> error + byte list" where
  "secondRead file k =
     (let buffered = drop 56 (take bufioSize file) in
      if k = 0 then Inr []
      else if buffered = [] then Inl IOError
      else Inr (take k buffered))"

text \<open>\<^verbatim>\<open>readArchiveHeader\<close> up to and including the check of the checksum: the bytes of
  the header, with the checksum field zeroed, and the size of the first entry.\<close>

definition readHeaderBytes :: "stdlib \<Rightarrow> byte list \<Rightarrow> error + (byte list \<times> nat)" where
  "readHeaderBytes L file =
     andThen (firstRead file) (\<lambda>d.
     if length d \<noteq> 56 then Inl EarlyEOF
     else if TypeToID TCvtmMagic \<noteq> take 16 d then Inl BadMagic
     else
       (let firstEntSize = unat (Uint32 (take 4 (drop 16 d))) in
        if firstEntSize < 56 then Inl BadEntrySize
        else
          (let headerSize = unat (Uint32 (take 4 (drop 52 d))) in
           if headerSize < firstEntSize then Inl BadHeaderSize
           else if headerSize > maxHeaderSize then Inl HeaderTooBig
           else
             andThen (secondRead file (headerSize - 56)) (\<lambda>r.
             if length r \<noteq> headerSize - 56 then Inl EarlyEOF
             else
               (let d1 = d @ r;
                    checksum1 = take 32 (drop 20 d1);
                    zeroed = take 20 d1 @ replicate 32 0 @ drop 52 d1
                in if checksum1 \<noteq> Sum256 L zeroed then Inl BadChecksum
                   else Inr (zeroed, firstEntSize))))))"

text \<open>\<^verbatim>\<open>readArchiveHeader\<close>.\<close>

definition readArchiveHeader :: "stdlib \<Rightarrow> ExtractOptions \<Rightarrow> error + ArchiveHeader" where
  "readArchiveHeader L options =
     andThen (readHeaderBytes L (File options)) (\<lambda>(d, firstEntSize).
     andThen (parseEntries (drop firstEntSize d) firstEntSize readSlots) (\<lambda>ss.
     let h0 = headerOfSlots ss;
         h = (if EndingSize_Size h0 = 0 then h0 \<lparr> EndingSize_Size := 1 \<rparr> else h0)
     in andThen (checkArchiveHeader L options h (word_of_nat (length d))) (\<lambda>u. Inr h)))"

section \<open>Finding the end, and the chain of endings\<close>

text \<open>One task of \<^verbatim>\<open>findEnd\<close>: 0 for a block that cannot be read or whose checksum is
  wrong, else the target in bytes. An unknown checksum algorithm panics.\<close>

definition readEndPointer :: "stdlib \<Rightarrow> byte list \<Rightarrow> u32 \<Rightarrow> u32 \<Rightarrow> error + int" where
  "readEndPointer L file algo blk =
     (let a = nat (BlockSize * uint blk) in
      if length file < a + 512 then Inr 0
      else
        (let buf = take 512 (drop a file) in
         andThen (computeEndPointerChecksum L buf algo) (\<lambda>c.
         if take 32 buf \<noteq> c then Inr 0
         else Inr (BlockSize * uint (Uint32 (take 4 (drop 32 buf)))))))"

fun maxEnd :: "stdlib \<Rightarrow> byte list \<Rightarrow> u32 \<Rightarrow> u32 list \<Rightarrow> int \<Rightarrow> error + int" where
  "maxEnd L file algo [] bytePos = Inr bytePos"
| "maxEnd L file algo (blk # blks) bytePos =
     andThen (readEndPointer L file algo blk) (\<lambda>a.
     maxEnd L file algo blks (if a > bytePos then a else bytePos))"

definition findEnd :: "stdlib \<Rightarrow> byte list \<Rightarrow> ArchiveHeader \<Rightarrow> error + int" where
  "findEnd L file h = maxEnd L file (EndPointerChec_Algo h) (EndPointerLoca h) 0"

text \<open>The zero \<^verbatim>\<open>EndingRead\<close> as reflection sees it, and the \<^verbatim>\<open>Ending\<close> in a parsed one.\<close>

definition endingSlots :: "slot list" where
  "endingSlots =
     [ Single TNoMoreImages (zeroValue TNoMoreImages),
       Single TEnding (zeroValue TEnding),
       Single TImageKey (zeroValue TImageKey),
       Many TImageLogLocati [] ]"

definition endingOfSlots :: "slot list \<Rightarrow> Ending" where
  "endingOfSlots ss =
     (let fs = single ss 1 in
      \<lparr> Ending_Length = u32At fs 0, Ending_Start = u32At fs 1, Ending_Prev = u32At fs 2,
        DataClusterCount = u32At fs 3, ClusterSizeExp = u8At fs 4, ClustersOffset = u32At fs 5 \<rparr>)"

text \<open>\<^verbatim>\<open>readEnding\<close>: \<open>None\<close> is \<^verbatim>\<open>errNoMoreImages\<close>. Slicing beyond the length of the
  data panics (for decrypted data the model does not follow Go's slice capacity).\<close>

definition readEnding ::
  "stdlib \<Rightarrow> byte list \<Rightarrow> int \<Rightarrow> ArchiveHeader \<Rightarrow> error + Ending option" where
  "readEnding L file end h =
     (let sz = BlockSize * uint (EndingSize_Size h) in
      if end < sz then Inl BadEndPointer
      else if int (length file) < end then Inl IOError
      else
        (let raw = take (nat sz) (drop (nat (end - sz)) file) in
         andThen (if EndingCipher_Algo h = 0 then Inr raw
                  else if EndingCipher_Algo h = 1 then
                    (case DecryptOAEP L raw of None \<Rightarrow> Inl DecryptionFailed | Some p \<Rightarrow> Inr p)
                  else Inl Panic) (\<lambda>d.
         if length d < 16 then Inl Panic
         else if TypeToID TNoMoreImages = take 16 d then Inr None
         else if TypeToID TEnding \<noteq> take 16 d then Inl BadEndingMagic
         else if length d < 24 then Inl Panic
         else
           (let size1 = uint (Uint32 (take 4 (drop 20 d))) in
            if size1 > sz then Inl BadEndingSize
            else if nat size1 > length d then Inl Panic
            else andThen (parseEntries (take (nat size1) d) 0 endingSlots)
                   (\<lambda>ss. Inr (Some (endingOfSlots ss)))))))"

text \<open>The loop of \<^verbatim>\<open>ExtractArchive\<close>. \<open>extract\<close> stands for \<^verbatim>\<open>extractImage\<close> with its
  output files: it tells whether the image at this index was extracted. The result is
  the number of images extracted.\<close>

function extractLoop ::
  "stdlib \<Rightarrow> byte list \<Rightarrow> ArchiveHeader \<Rightarrow> (nat \<Rightarrow> int \<Rightarrow> Ending \<Rightarrow> bool) \<Rightarrow> nat \<Rightarrow> int
     \<Rightarrow> error + nat" where
  "extractLoop L file h extract index endAt =
     (if endAt \<le> uint (ImageArea_Start h) then Inl EndingOutsideImageArea
      else if endAt = uint (ImageArea_Start h) then Inr index
      else
        (case readEnding L file endAt h of
           Inl err \<Rightarrow> Inl err
         | Inr None \<Rightarrow> Inr index
         | Inr (Some ending) \<Rightarrow>
             if \<not> extract index (endAt - BlockSize * uint (EndingSize_Size h)) ending
             then Inl ExtractError
             else
               (let endAtNext = BlockSize * uint (Ending_Prev ending) in
                if endAtNext \<ge> endAt then Inl NotBackwards
                else extractLoop L file h extract (Suc index) endAtNext)))"
  by pat_completeness auto
termination
proof (relation "measure (\<lambda>(L, file, h, extract, index, endAt). nat endAt)")
  show "wf (measure (\<lambda>(L, file, h, extract, index, endAt). nat endAt))" by simp
next
  fix L :: stdlib and archive :: "byte list" and h :: ArchiveHeader
    and ex :: "nat \<Rightarrow> int \<Rightarrow> Ending \<Rightarrow> bool" and index :: nat and endAt :: int
    and x2 :: "Ending option" and ending :: Ending and endAtNext :: int
  assume a: "\<not> endAt \<le> uint (ImageArea_Start h)"
    and "endAtNext = BlockSize * uint (Ending_Prev ending)"
    and b: "\<not> endAt \<le> endAtNext"
  have "0 < endAt" using a uint_nonnegative[of "ImageArea_Start h"] by linarith
  with b show "((L, archive, h, ex, Suc index, endAtNext), (L, archive, h, ex, index, endAt))
        \<in> measure (\<lambda>(L, file, h, extract, index, endAt). nat endAt)"
    by simp
qed

declare extractLoop.simps [simp del]

text \<open>\<^verbatim>\<open>ExtractArchive\<close>.\<close>

definition ExtractArchive ::
  "stdlib \<Rightarrow> ExtractOptions \<Rightarrow> (nat \<Rightarrow> int \<Rightarrow> Ending \<Rightarrow> bool) \<Rightarrow> error + nat" where
  "ExtractArchive L options extract =
     andThen (readArchiveHeader L options) (\<lambda>h.
     andThen (findEnd L (File options) h) (\<lambda>endAt.
     if endAt = 0 then Inl NoValidEndPointer
     else extractLoop L (File options) h extract 0 endAt))"


section \<open>Example inputs\<close>

text \<open>An instance of the library parameters for the statements that need a concrete one:
  a checksum that folds its input with exclusive or stands for SHA-256, so that it can
  be evaluated.\<close>

definition xorSum :: "byte list \<Rightarrow> byte" where
  "xorSum d = fold (\<lambda>b acc. b XOR acc) d 0"

definition exampleLib :: stdlib where
  "exampleLib =
     \<lparr> sha256 = (\<lambda>d. replicate 32 (xorSum d)),
       crc32c = (\<lambda>d. 0),
       EncryptOAEP = (\<lambda>d. Some (replicate 256 0)),
       DecryptOAEP = (\<lambda>d. None),
       ParsePKCS1PublicKey = (\<lambda>d. True) \<rparr>"

text \<open>What \<^verbatim>\<open>create\<close> builds for a disk of 1 MiB with allocation units of 4096 bytes
  and a 2048-bit RSA public key: one global log and one image log of one block, one
  end pointer at each side. The 270 bytes of the key's PKCS#1 encoding are not looked
  at by the writer; zeros stand for them.\<close>

definition rsaConf :: NewArchiveOptions where
  "rsaConf =
     \<lparr> DiskSize = 1048576, GlobalLogs = [1], ImgLogs = [1], EndPointersHead = 1,
       EndPointersTail = 1, EndingCipher = 1, EndPointerChecksum = 0, PublicKeySize = 256,
       PublicKeyPKCS1 = replicate 270 0, ImgCipher = 0, ImgClusterSizeExp = 0,
       AlignmentBlocks = 8, FillMethod = 1 \<rparr>"



section \<open>The entry codec: basic facts\<close>

lemma Uint32_PutUint32: "Uint32 (PutUint32 v) = v"
  unfolding Uint32_def PutUint32_def
  apply (rule bit_word_eqI)
  subgoal for n
    apply (cases "n < 8"; cases "n < 16"; cases "n < 24")
    apply (auto simp add: bit_simps)
    done
  done

lemma length_PutUint32 [simp]: "length (PutUint32 v) = 4"
  by (simp add: PutUint32_def)

lemma length_TypeToID: "length (TypeToID T) = 16"
  by (cases T) (simp_all add: mkId_def ascii_def)

lemma bareField_eq: "bareField v = Inr (binaryWrite v)"
  by (cases v) auto

lemma bareFields_eq: "bareFields fs = Inr (concat (map binaryWrite fs))"
  by (induction fs) (simp_all add: bareField_eq del: bareField.simps)

lemma bare_eq: "bare fs = Inr (concat (map binaryWrite fs))"
  by (simp add: bare_def bareFields_eq)

lemma writeEntry_eq:
  "writeEntry T fs =
     Inr (TypeToID T @ PutUint32 (20 + word_of_nat (length (concat (map binaryWrite fs))))
            @ concat (map binaryWrite fs))"
  by (simp add: writeEntry_def bare_eq)

text \<open>One well-formed entry is split off as one \<^verbatim>\<open>entryRead\<close>.\<close>

lemma splitEntries_step:
  assumes "length tid = 16" "20 + length payload < 2 ^ 32"
  shows "splitEntries result (tid @ PutUint32 (20 + word_of_nat (length payload)) @ payload @ rest) start
       = splitEntries (result(tid := result tid @ [\<lparr>at = start, data = payload\<rparr>])) rest
           (start + (20 + length payload))"
proof -
  have u: "unat (20 + word_of_nat (length payload) :: u32) = 20 + length payload"
    using assms(2) by (simp add: unat_word_ariths unat_of_nat)
  show ?thesis
    apply (subst splitEntries.simps)
    apply (simp add: assms(1) Uint32_PutUint32 u Let_def)
    done
qed

lemma splitEntries_Nil: "splitEntries result [] start = Inr result"
  by (subst splitEntries.simps) simp

lemma splitEntries_one:
  assumes "length tid = 16" "20 + length payload < 2 ^ 32"
  shows "splitEntries result (tid @ PutUint32 (20 + word_of_nat (length payload)) @ payload) start
       = Inr (result(tid := result tid @ [\<lparr>at = start, data = payload\<rparr>]))"
  using splitEntries_step[OF assms, of result "[]" start] by (simp add: splitEntries_Nil)

lemma sliceLast_structFields: "sliceLast (structFields T)"
  by (cases T) (simp_all add: sliceLast_def)

lemma parseFields_roundtrip:
  "list_all2 conforms ks p \<Longrightarrow> sliceLast ks \<Longrightarrow>
   parseFields (pre @ concat (map binaryWrite p)) (length pre) (map zeroField ks) = Inr p"
proof (induction ks p arbitrary: pre rule: list_all2_induct)
  case Nil
  then show ?case by simp
next
  case (Cons k ks v p)
  have sl: "sliceLast ks" using Cons.prems by (auto simp: sliceLast_def split: if_splits)
  show ?case
  proof (cases k)
    case KSlice
    then have "ks = []" using Cons.prems by (auto simp: sliceLast_def split: if_splits)
    then have "p = []" using Cons.hyps by simp
    from KSlice Cons.hyps(1) obtain bs where "v = Slc bs" by (cases v) auto
    then show ?thesis using KSlice \<open>ks = []\<close> \<open>p = []\<close> by auto
  next
    case KU8
    with Cons.hyps(1) obtain b where v: "v = U8 b" by (cases v) auto
    have "parseFields ((pre @ [b]) @ concat (map binaryWrite p)) (length (pre @ [b]))
            (map zeroField ks) = Inr p"
      by (rule Cons.IH[OF sl])
    then show ?thesis using KU8 v by (simp add: Let_def nth_append)
  next
    case KU32
    with Cons.hyps(1) obtain w where v: "v = U32 w" by (cases v) auto
    have "parseFields ((pre @ PutUint32 w) @ concat (map binaryWrite p))
            (length (pre @ PutUint32 w)) (map zeroField ks) = Inr p"
      by (rule Cons.IH[OF sl])
    then show ?thesis using KU32 v by (simp add: Let_def Uint32_PutUint32)
  next
    case (KArray n)
    with Cons.hyps(1) obtain bs where v: "v = Arr bs" and n: "length bs = n" by (cases v) auto
    have "parseFields ((pre @ bs) @ concat (map binaryWrite p)) (length (pre @ bs))
            (map zeroField ks) = Inr p"
      by (rule Cons.IH[OF sl])
    then show ?thesis using KArray v n by (auto simp add: Let_def)
  qed
qed

lemma parseEntry_roundtrip:
  assumes "list_all2 conforms (structFields T) p"
  shows "parseEntry \<lparr>at = a, data = concat (map binaryWrite p)\<rparr> (zeroValue T) = Inr p"
  using parseFields_roundtrip[OF assms sliceLast_structFields, of "[]"]
  by (simp add: parseEntry_def binaryReadValue_def zeroValue_def)

section \<open>Claims about the entry codec\<close>

text \<open>
  Claim C10 (entry round-trip). For every registered type \<open>T\<close> and every legal payload
  \<open>p\<close> of that type, \<^verbatim>\<open>writeEntry\<close> succeeds, and decoding the bytes it produced with
  \<^verbatim>\<open>parseEntries\<close> into a zero destination of type \<open>T\<close> gives \<open>p\<close> back unchanged.
\<close>

theorem entry_roundtrip:
  assumes "legalPayload T p"
  shows "\<exists>bs. writeEntry T p = Inr bs
            \<and> parseEntries bs 0 [Single T (zeroValue T)] = Inr [Single T p]"
proof -
  let ?payload = "concat (map binaryWrite p)"
  let ?bs = "TypeToID T @ PutUint32 (20 + word_of_nat (length ?payload)) @ ?payload"
  have w: "writeEntry T p = Inr ?bs" by (rule writeEntry_eq)
  have len: "20 + length ?payload < 2 ^ 32"
    and conf: "list_all2 conforms (structFields T) p"
    using assms by (simp_all add: legalPayload_def)
  have s: "splitEntries (\<lambda>typeID. []) ?bs 0
             = Inr ((\<lambda>typeID. [])(TypeToID T := [\<lparr>at = 0, data = ?payload\<rparr>]))"
    using splitEntries_one[OF length_TypeToID len, where result="\<lambda>typeID. []" and start=0]
    by simp
  have "parseEntries ?bs 0 [Single T (zeroValue T)] = Inr [Single T p]"
    by (simp add: parseEntries_def s parseEntry_roundtrip[OF conf] del: TypeToID.simps)
  with w show ?thesis by blast
qed

theorem entry_roundtrip_witness:
  "legalPayload TEnding [U32 24, U32 8, U32 0, U32 4, U8 3, U32 1]
   \<and> (\<exists>bs. writeEntry TEnding [U32 24, U32 8, U32 0, U32 4, U8 3, U32 1] = Inr bs
          \<and> parseEntries bs 0 [Single TEnding (zeroValue TEnding)]
              = Inr [Single TEnding [U32 24, U32 8, U32 0, U32 4, U8 3, U32 1]])"
proof -
  have h: "legalPayload TEnding [U32 24, U32 8, U32 0, U32 4, U8 3, U32 1]"
    by (simp add: legalPayload_def)
  show ?thesis using h entry_roundtrip [OF h] by simp
qed

text \<open>
  Claim C7 (tolerant payloads). The claim: a payload that ends on a field boundary and
  omits trailing fixed fields decodes successfully with the omitted fields zero. An
  \<^verbatim>\<open>IMAGE-AREA\<close> payload holding \<open>Start\<close> alone (four bytes, the boundary between
  \<open>Start\<close> and \<open>End\<close>) is rejected by \<^verbatim>\<open>parseEntry\<close> as a bad entry: the field loop
  returns \<^verbatim>\<open>io.EOF\<close> for \<open>End\<close>, and every error of the loop is wrapped in
  \<^verbatim>\<open>badEntry\<close>.
\<close>

theorem parseEntry_field_boundary_rejected:
  "parseEntry \<lparr>at = 56, data = [1, 0, 0, 0]\<rparr> (zeroValue TImageArea) = Inl (BadEntry 56 IoEOF)"
  by (simp add: parseEntry_def binaryReadValue_def zeroValue_def)

text \<open>
  Claim C9 (region decoding never panics). The claim: an in-bounds entry whose declared
  length is below 20 yields a bad-entry error. A region of exactly one 20-byte entry
  header that declares length 8 makes \<^verbatim>\<open>splitEntries\<close> evaluate
  \<^verbatim>\<open>data[20:8]\<close>, a run-time panic.
\<close>

theorem splitEntries_short_length_panics:
  "splitEntries (\<lambda>typeID. []) (TypeToID TImageArea @ PutUint32 8) 0 = Inl Panic"
  apply (subst splitEntries.simps)
  apply (simp add: Uint32_PutUint32 length_TypeToID del: TypeToID.simps)
  done

section \<open>QCOW2 synthesis: arithmetic of the table offsets\<close>


















section \<open>Claims about the synthesized QCOW2 image\<close>

text \<open>
  Claim C5 (layout of the image). The claim: the refcount table is at one cluster, the
  L1 table at two clusters, and the L2 tables and data start at \<open>2 + L1_clusters\<close>
  clusters. For an image with 4 KiB clusters (\<open>ClusterSizeExp = 3\<close>) whose only
  top-level entry is cluster 0, \<^verbatim>\<open>extractImage\<close> writes a header in which
  \<open>L1TableOffset\<close> and \<open>RefcountTableOffset\<close> are both 4096, one cluster, and the L1
  entries point at 8192 = (1 + 1) clusters: the two tables share a cluster and the data
  start one cluster earlier than the claim says.
\<close>

theorem qcow_l1_shares_refcount_cluster:
  "extractImage (replicate 1024 0 @ PutUint32 0 @ replicate 508 0) 1536
     \<lparr>Ending_Length = 44, Ending_Start = 2, Ending_Prev = 0, DataClusterCount = 4,
      ClusterSizeExp = 3, ClustersOffset = 0\<rparr>
   = Inr (\<lparr>Magic = 0x514649fb, Version = 3, BackingFileOffset = 0, BackingFileSize = 0,
            ClusterBits = 12, Size = 16384, CryptMethod = 0, L1Size = 2,
            L1TableOffset = 4096, RefcountTableOffset = 4096, RefcountTableClusters = 1,
            NbSnapshots = 0, SnapshotsOffset = 0, IncompatibleFeatures = 1,
            CompatibleFeatures = 0, AutoclearFeatures = 0, RefcountOrder = 0,
            HeaderLength = 104\<rparr>,
          [0x8000000000002000, 0x8000000000003000])"
  by (simp add: extractImage_def l1Len_def clusterExp_def allocatedClusters_def Let_def
        Uint32_PutUint32 readIndex_def qcowHeader_def l1Entry_def l1Start_def
        regularClustersEntryOffset_def l1ClusterCount_def countL2TablesBefore_def
        l2AtSrc_def SearchInts_def)




section \<open>Writing an empty archive: the size of an ending\<close>

lemma assembleHeader_EndingSize:
  "assembleHeader L conf = Inr lay \<Longrightarrow> endingSizeOf conf = Inr (EndingSize_Size (header lay))"
  by (auto simp add: assembleHeader_def andThen_def Let_def
        split: sum.splits prod.splits if_splits)

lemma rsaConf_assembles: "\<not> isl (assembleHeader exampleLib rsaConf)"
  by code_simp

text \<open>
  Claim C1 (the header's EndingSize). The claim: for the RSA ending cipher the size is
  the modulus length in bytes divided by 512 and rounded up, so one block for a modulus
  of 256 bytes. \<^verbatim>\<open>WriteEmptyArchive\<close> rounds the byte length up to a multiple of 512 and
  does not divide: whenever it assembles a header for a 256-byte modulus, the header's
  EndingSize is 512 blocks.
\<close>

theorem rsa_ending_size_is_512_blocks:
  assumes "assembleHeader L conf = Inr lay"
    and "EndingCipher conf = 1"
    and "PublicKeySize conf = 256"
  shows "EndingSize_Size (header lay) = 512"
  using assembleHeader_EndingSize [OF assms(1)] assms(2,3)
  by (simp add: endingSizeOf_def alignUp_def BlockSize_def)

theorem rsa_ending_size_is_512_blocks_witness:
  "\<exists>lay. assembleHeader exampleLib rsaConf = Inr lay \<and> EndingSize_Size (header lay) = 512"
proof -
  obtain lay where a: "assembleHeader exampleLib rsaConf = Inr lay"
    using rsaConf_assembles by (cases "assembleHeader exampleLib rsaConf") auto
  have "EndingCipher rsaConf = 1" and "PublicKeySize rsaConf = 256"
    by (simp_all add: rsaConf_def)
  with a rsa_ending_size_is_512_blocks [of exampleLib rsaConf lay] show ?thesis by blast
qed

text \<open>
  Claim C2 (the sentinel is reached). The claim: for every legal configuration,
  extraction of a freshly written archive finds the sentinel and reports zero images.
  With the RSA ending cipher and a 256-byte modulus the header that the writer
  assembles is refused by the reader's \<^verbatim>\<open>checkArchiveHeader\<close>, whatever the header's size
  and the options: its EndingSize of 512 exceeds \<^verbatim>\<open>maxEndingSize\<close>.
\<close>

theorem rsa_header_refused_by_reader:
  assumes "assembleHeader L conf = Inr lay"
    and "EndingCipher conf = 1"
    and "PublicKeySize conf = 256"
  shows "\<exists>n. checkArchiveHeader L options (header lay) headerSize = Inl (HeaderErrors (Suc n))"
proof -
  have "EndingSize_Size (header lay) = 512"
    using assembleHeader_EndingSize [OF assms(1)] assms(2,3)
    by (simp add: endingSizeOf_def alignUp_def BlockSize_def)
  then have "EndingSize_Size (header lay) > maxEndingSize" by (simp add: maxEndingSize_def)
  then show ?thesis by (simp add: checkArchiveHeader_def Let_def)
qed

theorem rsa_header_refused_by_reader_witness:
  "\<exists>lay n. assembleHeader exampleLib rsaConf = Inr lay
     \<and> checkArchiveHeader exampleLib \<lparr>File = [], PrivateKey = True\<rparr> (header lay) 551
         = Inl (HeaderErrors (Suc n))"
proof -
  obtain lay where a: "assembleHeader exampleLib rsaConf = Inr lay"
    using rsaConf_assembles by (cases "assembleHeader exampleLib rsaConf") auto
  have "EndingCipher rsaConf = 1" and "PublicKeySize rsaConf = 256"
    by (simp_all add: rsaConf_def)
  with a rsa_header_refused_by_reader [of exampleLib rsaConf lay "\<lparr>File = [], PrivateKey = True\<rparr>" 551]
  show ?thesis by blast
qed

section \<open>The walk along the chain of endings\<close>

text \<open>
  Claim C4 (where the walk stops). The claim: the walk stops without error when
  \<open>endAt\<close> equals \<open>ImageArea.Start\<close> times 512, and fails only below that. The loop of
  \<^verbatim>\<open>ExtractArchive\<close> compares the byte offset \<open>endAt\<close> with the block number
  \<open>ImageArea.Start\<close>, and tests \<open>\<le>\<close> before \<open>=\<close>: an \<open>endAt\<close> equal to \<open>ImageArea.Start\<close>
  is the fatal error, and with \<open>ImageArea.Start = 1\<close> and \<open>endAt = 512\<close> the loop goes on
  to read the block below the image area as an ending, here the block that holds the
  header, and fails on its magic.
\<close>

theorem walk_at_image_area_start_fails:
  "extractLoop L archive h ex index (uint (ImageArea_Start h)) = Inl EndingOutsideImageArea
   \<and> extractLoop L (TypeToID TCvtmMagic @ replicate 496 0)
        (h\<lparr>ImageArea_Start := 1, EndingSize_Size := 1, EndingCipher_Algo := 0\<rparr>) ex index 512
      = Inl BadEndingMagic"
proof
  show "extractLoop L archive h ex index (uint (ImageArea_Start h)) = Inl EndingOutsideImageArea"
    by (simp add: extractLoop.simps)
next
  show "extractLoop L (TypeToID TCvtmMagic @ replicate 496 0)
        (h\<lparr>ImageArea_Start := 1, EndingSize_Size := 1, EndingCipher_Algo := 0\<rparr>) ex index 512
      = Inl BadEndingMagic"
    apply (subst extractLoop.simps)
    apply (simp add: readEnding_def BlockSize_def andThen_def mkId_def ascii_def)
    done
qed

section \<open>End pointers\<close>


lemma length_Sum256 [simp]: "length (Sum256 L d) = 32"
  by (simp add: Sum256_def)










end
